theory Spec2Isabelle
  imports Main "HOL-Library.Word" "HOL-Library.Sublist"
begin

section \<open>Connection details service (app.go)\<close>

text \<open>
  A shallow embedding of \<^verbatim>\<open>app.go\<close>: the report type \<^verbatim>\<open>ConnectionDetails\<close>, the two helper
  functions \<^verbatim>\<open>getNetworkInterfaces\<close> and \<^verbatim>\<open>getPublicIPInfo\<close>, the request handler
  \<^verbatim>\<open>connectionHandler\<close> and the route table that \<^verbatim>\<open>main\<close> registers.

  Everything the program reads from outside itself (host name, interfaces, the geo database,
  runtime statistics) and every function of a library that is too large to transcribe
  (JSON encoding, \<^verbatim>\<open>net.ParseIP\<close>, the \<^verbatim>\<open>String\<close> methods) is a field of the record \<open>env\<close>:
  a theorem that quantifies over \<open>env\<close> holds for every outcome of those calls, failures
  included.
\<close>

subsection \<open>Functions of package strings\<close>


text \<open>
  \<^verbatim>\<open>strings.Join(elems, sep)\<close>.
\<close>

fun strings_Join :: "string list \<Rightarrow> string \<Rightarrow> string" where
  "strings_Join [] sep = []"
| "strings_Join [x] sep = x"
| "strings_Join (x # y # ys) sep = x @ sep @ strings_Join (y # ys) sep"

text \<open>
  \<^verbatim>\<open>strings.Split(s, sep)\<close> for a non-empty separator: \<open>s\<close> is cut at every occurrence of
  \<open>sep\<close>, scanning from the left; the result always has at least one element. The second
  argument of \<open>split_from\<close> is the piece read so far. (With an empty separator Go explodes
  the string into its UTF-8 sequences; the program only ever splits at \<^verbatim>\<open>":"\<close>, and the
  model returns the whole string as one piece there.)
\<close>

function split_from :: "string \<Rightarrow> string \<Rightarrow> string \<Rightarrow> string list" where
  "split_from sep cur [] = [cur]"
| "split_from sep cur (c # cs) =
     (if sep \<noteq> [] \<and> prefix sep (c # cs)
      then cur # split_from sep [] (drop (length sep) (c # cs))
      else split_from sep (cur @ [c]) cs)"
  by pat_completeness auto
termination
  by (relation "measure (\<lambda>(sep, cur, s). length s)") auto

definition strings_Split :: "string \<Rightarrow> string \<Rightarrow> string list" where
  "strings_Split s sep = split_from sep [] s"

subsection \<open>The report: ConnectionDetails\<close>

text \<open>
  Go's \<^verbatim>\<open>float64\<close> is carried as its IEEE-754 bit pattern: the program copies latitude and
  longitude and never computes with them. The zero value \<^verbatim>\<open>0.0\<close> is the pattern \<open>0\<close>.
  A \<^verbatim>\<open>map[string]string\<close> is a partial function; the model does not tell a nil map from an
  empty one.
\<close>

type_synonym float64 = "64 word"
type_synonym uint64 = "64 word"
type_synonym byte = "8 word"

record RequestInfo =
  RemoteAddr :: string
  Host :: string
  Method :: string
  UserAgent :: string
  ForwardedFor :: string
  Headers :: "string \<rightharpoonup> string"

record ServerInfo =
  Hostname :: string
  ServerIP :: string
  Interfaces :: "string \<rightharpoonup> string"

record GeoInfo =
  PublicIP :: string
  CountryCode :: string
  Country :: string
  City :: string
  Latitude :: float64
  Longitude :: float64
  Organization :: string
  PostalCode :: string

record OSInfo =
  Platform :: string
  Arch :: string
  GoVersion :: string
  CPUNum :: int
  Memory :: string

record SystemInfo =
  OS :: OSInfo

record ConnectionDetails =
  Request :: RequestInfo
  Server :: ServerInfo
  IPInfo :: GeoInfo
  System :: SystemInfo

text \<open>The zero value \<^verbatim>\<open>ConnectionDetails{}\<close> and the zero value of its \<^verbatim>\<open>IPInfo\<close> part.\<close>

definition zero_GeoInfo :: GeoInfo where
  "zero_GeoInfo =
     \<lparr>PublicIP = [], CountryCode = [], Country = [], City = [], Latitude = 0, Longitude = 0,
      Organization = [], PostalCode = []\<rparr>"

definition zero_ConnectionDetails :: ConnectionDetails where
  "zero_ConnectionDetails =
     \<lparr>Request = \<lparr>RemoteAddr = [], Host = [], Method = [], UserAgent = [], ForwardedFor = [],
                 Headers = Map.empty\<rparr>,
      Server = \<lparr>Hostname = [], ServerIP = [], Interfaces = Map.empty\<rparr>,
      IPInfo = zero_GeoInfo,
      System = \<lparr>OS = \<lparr>Platform = [], Arch = [], GoVersion = [], CPUNum = 0, Memory = []\<rparr>\<rparr>\<rparr>"

subsection \<open>Package net: addresses\<close>

text \<open>
  A Go \<^verbatim>\<open>error\<close> is represented by its message. \<^verbatim>\<open>net.IP\<close> is a byte slice. The two methods
  the handler tests an address with are short and are transcribed from package net:
  \<^verbatim>\<open>
  func (ip IP) To4() IP {
      if len(ip) == IPv4len { return ip }
      if len(ip) == IPv6len && isZeros(ip[0:10]) && ip[10] == 0xff && ip[11] == 0xff {
          return ip[12:16]
      }
      return nil
  }
  func (ip IP) IsLoopback() bool {
      if ip4 := ip.To4(); ip4 != nil { return ip4[0] == 127 }
      return ip.Equal(IPv6loopback)
  }
  \<close>
  In \<^verbatim>\<open>IsLoopback\<close> the call of \<^verbatim>\<open>Equal\<close> is reached only when \<^verbatim>\<open>To4\<close> is nil, so that the
  length of \<open>ip\<close> is not 4, and \<^verbatim>\<open>Equal\<close> against the 16-byte \<^verbatim>\<open>IPv6loopback\<close> is equality of
  the bytes.
\<close>

datatype error = Error string

type_synonym IP = "byte list"

definition To4 :: "IP \<Rightarrow> IP option" where
  "To4 ip =
     (if length ip = 4 then Some ip
      else if length ip = 16 \<and> list_all (\<lambda>b. b = 0) (take 10 ip) \<and>
              ip ! 10 = 0xff \<and> ip ! 11 = 0xff
      then Some (drop 12 ip)
      else None)"

definition IPv6loopback :: IP where
  "IPv6loopback = [0, 0, 0, 0, 0, 0, 0, 0, 0, 0, 0, 0, 0, 0, 0, 1]"

definition IsLoopback :: "IP \<Rightarrow> bool" where
  "IsLoopback ip =
     (case To4 ip of
        Some ip4 \<Rightarrow> ip4 ! 0 = 127
      | None \<Rightarrow> ip = IPv6loopback)"

text \<open>
  A \<^verbatim>\<open>net.Addr\<close> is an interface value; the handler asks whether its dynamic type is
  \<^verbatim>\<open>*net.IPNet\<close>. Every other implementation is \<open>OtherAddr\<close>, carrying what its \<^verbatim>\<open>String()\<close>
  returns.
\<close>

datatype Addr = IPNet IP "byte list" | OtherAddr string

record Interface =
  iface_Name :: string
  iface_Addrs :: "error + Addr list"

subsection \<open>The geo database\<close>

text \<open>
  The fields of \<^verbatim>\<open>geoip2.City\<close> that \<^verbatim>\<open>getPublicIPInfo\<close> reads. An open database is the
  function its method \<^verbatim>\<open>City\<close> computes.
\<close>

record CityRecord =
  Country_IsoCode :: string
  Country_Names :: "string \<rightharpoonup> string"
  City_Names :: "string \<rightharpoonup> string"
  Location_Latitude :: float64
  Location_Longitude :: float64
  Postal_Code :: string

type_synonym Reader = "IP \<Rightarrow> error + CityRecord"

subsection \<open>The environment of one request\<close>

record env =
  os_Hostname :: "error + string"
  net_Interfaces :: "error + Interface list"
  net_InterfaceAddrs :: "error + Addr list"
  Addr_String :: "Addr \<Rightarrow> string"
  IP_String :: "IP \<Rightarrow> string"
  net_ParseIP :: "string \<Rightarrow> IP option"
  geoip2_Open :: "string \<Rightarrow> error + Reader"
  runtime_GOOS :: string
  runtime_GOARCH :: string
  runtime_Version :: string
  runtime_NumCPU :: int
  MemStats_Sys :: uint64
  humanize_Bytes :: "uint64 \<Rightarrow> string"
  json_Marshal :: "ConnectionDetails \<Rightarrow> error + string"
  json_MarshalIndent :: "ConnectionDetails \<Rightarrow> string \<Rightarrow> string \<Rightarrow> error + string"

text \<open>Reading a Go map at a key that is absent gives the zero value, here the empty string.\<close>

definition map_index :: "(string \<rightharpoonup> string) \<Rightarrow> string \<Rightarrow> string" where
  "map_index m k = (case m k of None \<Rightarrow> [] | Some v \<Rightarrow> v)"

subsection \<open>getNetworkInterfaces\<close>

text \<open>
  The inner loop \<^verbatim>\<open>for _, addr := range addrs { interfaces[iface.Name] = addr.String() }\<close>
  and the outer loop over the interfaces, which skips an interface whose \<^verbatim>\<open>Addrs()\<close> fails.
\<close>

fun addrs_loop :: "env \<Rightarrow> string \<Rightarrow> Addr list \<Rightarrow> (string \<rightharpoonup> string) \<Rightarrow> (string \<rightharpoonup> string)" where
  "addrs_loop e name [] interfaces = interfaces"
| "addrs_loop e name (addr # addrs) interfaces =
     addrs_loop e name addrs (interfaces(name \<mapsto> Addr_String e addr))"

fun ifaces_loop :: "env \<Rightarrow> Interface list \<Rightarrow> (string \<rightharpoonup> string) \<Rightarrow> (string \<rightharpoonup> string)" where
  "ifaces_loop e [] interfaces = interfaces"
| "ifaces_loop e (iface # ifaces) interfaces =
     (case iface_Addrs iface of
        Inl err \<Rightarrow> ifaces_loop e ifaces interfaces
      | Inr addrs \<Rightarrow> ifaces_loop e ifaces (addrs_loop e (iface_Name iface) addrs interfaces))"

definition getNetworkInterfaces :: "env \<Rightarrow> (string \<rightharpoonup> string)" where
  "getNetworkInterfaces e =
     (case net_Interfaces e of
        Inl err \<Rightarrow> Map.empty
      | Inr ifaces \<Rightarrow> ifaces_loop e ifaces Map.empty)"

subsection \<open>getPublicIPInfo\<close>

text \<open>
  The three early returns of the source are the three first branches. The two calls of
  \<^verbatim>\<open>log.Printf\<close> write to the process log, which nothing in the program reads, and the
  deferred \<^verbatim>\<open>db.Close()\<close> releases the file: neither changes the value returned.
\<close>

definition getPublicIPInfo :: "env \<Rightarrow> string \<Rightarrow> ConnectionDetails" where
  "getPublicIPInfo e ip =
     (let details = zero_ConnectionDetails\<lparr>IPInfo := zero_GeoInfo\<lparr>PublicIP := ip\<rparr>\<rparr> in
      case geoip2_Open e ''GeoLite2-City.mmdb'' of
        Inl err \<Rightarrow> details
      | Inr db \<Rightarrow>
          (case net_ParseIP e ip of
             None \<Rightarrow> details
           | Some parsedIP \<Rightarrow>
               (case db parsedIP of
                  Inl err \<Rightarrow> details
                | Inr record \<Rightarrow>
                    details\<lparr>IPInfo := (IPInfo details)
                      \<lparr>CountryCode := Country_IsoCode record,
                       Country := map_index (Country_Names record) ''en'',
                       City := map_index (City_Names record) ''en'',
                       Latitude := Location_Latitude record,
                       Longitude := Location_Longitude record,
                       PostalCode := Postal_Code record\<rparr>\<rparr>)))"

subsection \<open>Package net/http: request, header, response writer\<close>

text \<open>
  The fields of \<^verbatim>\<open>http.Request\<close> the program can observe. \<^verbatim>\<open>r.Header\<close> is a Go map from a
  canonical header name to the list of its values, in the order received; the model lists
  its entries in the order in which \<^verbatim>\<open>range\<close> happens to enumerate them. In a Go map every
  key occurs once, which is the invariant \<open>distinct (map fst (req_Header r))\<close>.
\<close>

type_synonym Header = "(string \<times> string list) list"

record HttpRequest =
  req_Method :: string
  req_URL_Path :: string
  req_Host :: string
  req_RemoteAddr :: string
  req_Header :: Header

text \<open>
  \<^verbatim>\<open>Header.Get(key)\<close>: the first value stored under the key, or the empty string when there
  is none. \<^verbatim>\<open>Get\<close> first brings the key into canonical form; the three keys the handler asks
  for (\<^verbatim>\<open>X-Forwarded-For\<close>, \<^verbatim>\<open>Accept\<close>, \<^verbatim>\<open>User-Agent\<close>) are canonical as written.
\<close>

definition Header_Get :: "Header \<Rightarrow> string \<Rightarrow> string" where
  "Header_Get h key =
     (case map_of h key of
        None \<Rightarrow> []
      | Some [] \<Rightarrow> []
      | Some (v # vs) \<Rightarrow> v)"

text \<open>\<^verbatim>\<open>r.UserAgent()\<close> is \<^verbatim>\<open>r.Header.Get("User-Agent")\<close>.\<close>

definition req_UserAgent :: "HttpRequest \<Rightarrow> string" where
  "req_UserAgent r = Header_Get (req_Header r) ''User-Agent''"







subsection \<open>Encoding and formatting\<close>







subsection \<open>connectionHandler\<close>

text \<open>
  The loop \<^verbatim>\<open>for k, v := range r.Header { details.Request.Headers[k] = strings.Join(v, ";") }\<close>.
\<close>

fun headers_loop :: "Header \<Rightarrow> (string \<rightharpoonup> string) \<Rightarrow> (string \<rightharpoonup> string)" where
  "headers_loop [] headers = headers"
| "headers_loop ((k, v) # rest) headers = headers_loop rest (headers(k \<mapsto> strings_Join v '';''))"

text \<open>
  The scan for the server address: the loop leaves at the first address that is a
  \<^verbatim>\<open>*net.IPNet\<close>, is not a loopback address and has a 4-byte form. The last argument is the
  value of \<^verbatim>\<open>details.Server.ServerIP\<close> before the loop.
\<close>

fun server_ip_loop :: "env \<Rightarrow> Addr list \<Rightarrow> string \<Rightarrow> string" where
  "server_ip_loop e [] cur = cur"
| "server_ip_loop e (addr # addrs) cur =
     (case addr of
        IPNet ip netmask \<Rightarrow>
          (if \<not> IsLoopback ip
           then (if To4 ip \<noteq> None then IP_String e ip else server_ip_loop e addrs cur)
           else server_ip_loop e addrs cur)
      | OtherAddr s \<Rightarrow> server_ip_loop e addrs cur)"

text \<open>
  \<^verbatim>\<open>addrs, _ := net.InterfaceAddrs()\<close> and \<^verbatim>\<open>hostname, _ := os.Hostname()\<close>: both functions
  return the zero value (a nil slice, the empty string) together with an error.
\<close>

definition interfaceAddrs :: "env \<Rightarrow> Addr list" where
  "interfaceAddrs e = (case net_InterfaceAddrs e of Inl err \<Rightarrow> [] | Inr addrs \<Rightarrow> addrs)"

definition hostname :: "env \<Rightarrow> string" where
  "hostname e = (case os_Hostname e of Inl err \<Rightarrow> [] | Inr name \<Rightarrow> name)"

text \<open>
  Indexing a slice at 0 panics when the slice is empty: \<open>None\<close> is the panic.
\<close>

definition index0 :: "'a list \<Rightarrow> 'a option" where
  "index0 xs = (case xs of [] \<Rightarrow> None | x # rest \<Rightarrow> Some x)"

text \<open>Lines 156 to 159: the string handed to \<^verbatim>\<open>getPublicIPInfo\<close>.\<close>

definition callerIP :: "HttpRequest \<Rightarrow> string option" where
  "callerIP r =
     (let ip = Header_Get (req_Header r) ''X-Forwarded-For'' in
      if ip = [] then index0 (strings_Split (req_RemoteAddr r) '':'') else Some ip)"

text \<open>Lines 113 to 161: the report, or \<open>None\<close> when the handler panics.\<close>

definition collectDetails :: "env \<Rightarrow> HttpRequest \<Rightarrow> ConnectionDetails option" where
  "collectDetails e r =
     (let request = \<lparr>RemoteAddr = req_RemoteAddr r, Host = req_Host r, Method = req_Method r,
                     UserAgent = req_UserAgent r,
                     ForwardedFor = Header_Get (req_Header r) ''X-Forwarded-For'',
                     Headers = headers_loop (req_Header r) Map.empty\<rparr>;
          server = \<lparr>Hostname = hostname e,
                    ServerIP = server_ip_loop e (interfaceAddrs e) [],
                    Interfaces = getNetworkInterfaces e\<rparr>;
          system = \<lparr>OS = \<lparr>Platform = runtime_GOOS e, Arch = runtime_GOARCH e,
                           GoVersion = runtime_Version e, CPUNum = runtime_NumCPU e,
                           Memory = humanize_Bytes e (MemStats_Sys e)\<rparr>\<rparr>
      in case callerIP r of
           None \<Rightarrow> None
         | Some ip \<Rightarrow>
             Some \<lparr>Request = request, Server = server,
                   IPInfo = IPInfo (getPublicIPInfo e ip), System = system\<rparr>)"




subsection \<open>main: the route table\<close>

text \<open>
  \<^verbatim>\<open>http.HandleFunc("/", connectionHandler)\<close> is the only registration. The multiplexer
  selects a handler by the request path alone: a pattern that ends in a slash names a
  subtree and matches every path it is a prefix of, any other pattern matches the path
  equal to it, and among the matching patterns the longest wins. A pattern written without
  a method, as here, applies to every method.
  \<open>mux_match\<close> is the selection for a path.
\<close>

datatype HandlerId = ConnectionHandler

definition main_routes :: "(string \<times> HandlerId) list" where
  "main_routes = [(''/'', ConnectionHandler)]"

definition main_port :: "string \<Rightarrow> string" where
  "main_port env_PORT = (if env_PORT = [] then ''3100'' else env_PORT)"

definition pathMatch :: "string \<Rightarrow> string \<Rightarrow> bool" where
  "pathMatch pattern path =
     (if pattern = [] then False
      else if last pattern \<noteq> CHR ''/'' then pattern = path
      else prefix pattern path)"

fun mux_match :: "(string \<times> HandlerId) list \<Rightarrow> string \<Rightarrow> (string \<times> HandlerId) option" where
  "mux_match [] path = None"
| "mux_match ((pattern, h) # rest) path =
     (case mux_match rest path of
        None \<Rightarrow> if pathMatch pattern path then Some (pattern, h) else None
      | Some (p', h') \<Rightarrow>
          if pathMatch pattern path \<and> length p' < length pattern then Some (pattern, h)
          else Some (p', h'))"

text \<open>
  Before it selects, the multiplexer brings the path into canonical form, for every method
  but CONNECT, and answers with a redirect (status 301) when that changes the path.
  Transcribed from package net/http, for patterns without a host part (the one pattern
  of \<^verbatim>\<open>main\<close> has none):
  \<^verbatim>\<open>
  func cleanPath(p string) string {
      if p == "" { return "/" }
      if p[0] != '/' { p = "/" + p }
      np := path.Clean(p)
      // path.Clean removes trailing slash except for root;
      // put the trailing slash back if necessary.
      if p[len(p)-1] == '/' && np != "/" { ... np = p or np += "/" ... }
      return np
  }
  func (mux *ServeMux) Handler(r *Request) (h Handler, pattern string) {
      if r.Method == "CONNECT" {
          if u, ok := mux.redirectToPathSlash(r.URL.Host, r.URL.Path, r.URL); ok {
              return RedirectHandler(u.String(), StatusMovedPermanently), u.Path
          }
          return mux.handler(r.Host, r.URL.Path)
      }
      host := stripHostPort(r.Host)
      path := cleanPath(r.URL.Path)
      if u, ok := mux.redirectToPathSlash(host, path, r.URL); ok {
          return RedirectHandler(u.String(), StatusMovedPermanently), u.Path
      }
      if path != r.URL.Path {
          _, pattern = mux.handler(host, path)
          u := &url.URL{Path: path, RawQuery: r.URL.RawQuery}
          return RedirectHandler(u.String(), StatusMovedPermanently), pattern
      }
      return mux.handler(host, r.URL.Path)
  }
  \<close>
  \<^verbatim>\<open>ServeHTTP\<close> calls \<^verbatim>\<open>Handler\<close> for every request but one with the target \<^verbatim>\<open>*\<close>, which it
  refuses with status 400; the path of such a request is not in canonical form.
  \<^verbatim>\<open>path.Clean\<close> is only called on a path that begins with a slash. There it walks the
  elements between the slashes: an empty element and \<^verbatim>\<open>.\<close> are dropped, \<^verbatim>\<open>..\<close> removes the
  element before it (and is dropped at the root), and the result is a slash followed by
  the remaining elements joined with slashes.
\<close>

definition clean_step :: "string list \<Rightarrow> string \<Rightarrow> string list" where
  "clean_step elems elem =
     (if elem = [] \<or> elem = ''.'' then elems
      else if elem = ''..'' then butlast elems
      else elems @ [elem])"

definition path_Clean :: "string \<Rightarrow> string" where
  "path_Clean p = CHR ''/'' # strings_Join (foldl clean_step [] (strings_Split p ''/'')) ''/''"

definition cleanPath :: "string \<Rightarrow> string" where
  "cleanPath p =
     (if p = [] then ''/''
      else
        (let p' = (if hd p \<noteq> CHR ''/'' then CHR ''/'' # p else p);
             np = path_Clean p'
         in if last p' = CHR ''/'' \<and> np \<noteq> ''/'' then np @ ''/'' else np))"

text \<open>
  \<^verbatim>\<open>redirectToPathSlash\<close>: the path is not registered, and the path followed by a slash
  is. \<^verbatim>\<open>mux.handler\<close>: the matching pattern's handler, or the not-found handler.
\<close>

definition redirectToPathSlash :: "(string \<times> HandlerId) list \<Rightarrow> string \<Rightarrow> bool" where
  "redirectToPathSlash routes path =
     (path \<notin> set (map fst routes) \<and> path \<noteq> [] \<and>
      path @ ''/'' \<in> set (map fst routes) \<and> last path \<noteq> CHR ''/'')"

datatype Selection = Redirect string | Serve HandlerId | NotFound

definition mux_handler :: "(string \<times> HandlerId) list \<Rightarrow> string \<Rightarrow> Selection" where
  "mux_handler routes path =
     (case mux_match routes path of
        None \<Rightarrow> NotFound
      | Some (p, h) \<Rightarrow> Serve h)"

definition ServeMux_Handler :: "(string \<times> HandlerId) list \<Rightarrow> HttpRequest \<Rightarrow> Selection" where
  "ServeMux_Handler routes r =
     (if req_Method r = ''CONNECT''
      then (if redirectToPathSlash routes (req_URL_Path r) then Redirect (req_URL_Path r @ ''/'')
            else mux_handler routes (req_URL_Path r))
      else
        (let path = cleanPath (req_URL_Path r) in
         if redirectToPathSlash routes path then Redirect (path @ ''/'')
         else if path \<noteq> req_URL_Path r then Redirect path
         else mux_handler routes (req_URL_Path r)))"

text \<open>
  \<open>handled_by_connectionHandler r\<close>: the multiplexer hands the request \<open>r\<close> to
  \<^verbatim>\<open>connectionHandler\<close>.
\<close>

definition handled_by_connectionHandler :: "HttpRequest \<Rightarrow> bool" where
  "handled_by_connectionHandler r = (ServeMux_Handler main_routes r = Serve ConnectionHandler)"

subsection \<open>The request as the caller sends it\<close>

text \<open>
  \<open>sent\<close> is the list of the header fields a caller sends, grouped by canonical name, in
  the order received, and \<open>r\<close> the request the handler is called with. Of what the server
  does in between, \<open>Host_promoted sent r\<close> states the step that package net/http documents
  for the field \<^verbatim>\<open>Request.Header\<close>:
  \<^verbatim>\<open>For incoming requests, the Host header is promoted to the Request.Host field and removed
  from the Header map.\<close>
\<close>

definition Host_promoted :: "Header \<Rightarrow> HttpRequest \<Rightarrow> bool" where
  "Host_promoted sent r =
     (req_Host r = Header_Get sent ''Host'' \<and> ''Host'' \<notin> set (map fst (req_Header r)))"

subsection \<open>Notions the properties are stated with\<close>

text \<open>
  An address the scan for the server address stops at: an IP network address that is not a
  loopback address and has a 4-byte form. \<open>Addr_IP\<close> is the IP of such an address.
\<close>

fun nonloopback_IPv4 :: "Addr \<Rightarrow> bool" where
  "nonloopback_IPv4 (IPNet ip netmask) = (\<not> IsLoopback ip \<and> To4 ip \<noteq> None)"
| "nonloopback_IPv4 (OtherAddr s) = False"

fun Addr_IP :: "Addr \<Rightarrow> IP" where
  "Addr_IP (IPNet ip netmask) = ip"
| "Addr_IP (OtherAddr s) = []"

text \<open>
  The addresses enumerated under an interface name, in the order of enumeration: those of
  every interface of that name whose \<^verbatim>\<open>Addrs()\<close> succeeded.
\<close>

definition enumerated :: "Interface list \<Rightarrow> string \<Rightarrow> Addr list" where
  "enumerated ifaces name =
     concat (map (\<lambda>i. case iface_Addrs i of Inl err \<Rightarrow> [] | Inr addrs \<Rightarrow> addrs)
                 (filter (\<lambda>i. iface_Name i = name) ifaces))"

text \<open>
  A socket address \<^verbatim>\<open>host:port\<close> stripped of its port, as the specification words it: the
  port is what follows the last colon. (\<^verbatim>\<open>net.SplitHostPort\<close> also removes the brackets of
  an IPv6 host; this definition keeps them.)
\<close>

definition spec_strip_port :: "string \<Rightarrow> string" where
  "spec_strip_port addr =
     (if CHR '':'' \<in> set addr
      then rev (drop 1 (dropWhile (\<lambda>c. c \<noteq> CHR '':'') (rev addr)))
      else addr)"

text \<open>The route the specification names: method \<^verbatim>\<open>GET\<close>, path \<^verbatim>\<open>/\<close>.\<close>

definition spec_route :: "HttpRequest \<Rightarrow> bool" where
  "spec_route r = (req_Method r = ''GET'' \<and> req_URL_Path r = ''/'')"

text \<open>The request \<open>r\<close> without its header \<open>key\<close>.\<close>

definition without_header :: "string \<Rightarrow> HttpRequest \<Rightarrow> HttpRequest" where
  "without_header key r = r\<lparr>req_Header := filter (\<lambda>kv. fst kv \<noteq> key) (req_Header r)\<rparr>"













subsection \<open>Concrete hosts and requests\<close>

text \<open>
  A host with a loopback interface, an interface with two addresses, an interface whose
  address enumeration fails and an interface without addresses; a geo database that knows
  one address.
\<close>

definition lo_addr :: Addr where
  "lo_addr = IPNet [127, 0, 0, 1] [255, 0, 0, 0]"

definition eth0_v6 :: Addr where
  "eth0_v6 =
     IPNet [0xfe, 0x80, 0, 0, 0, 0, 0, 0, 0, 0, 0, 0, 0, 0, 0, 1]
           [0xff, 0xff, 0xff, 0xff, 0xff, 0xff, 0xff, 0xff, 0, 0, 0, 0, 0, 0, 0, 0]"

definition eth0_v4 :: Addr where
  "eth0_v4 = IPNet [10, 0, 0, 5] [255, 255, 255, 0]"

definition sample_ifaces :: "Interface list" where
  "sample_ifaces =
     [\<lparr>iface_Name = ''lo'', iface_Addrs = Inr [lo_addr]\<rparr>,
      \<lparr>iface_Name = ''eth0'', iface_Addrs = Inr [eth0_v4, eth0_v6]\<rparr>,
      \<lparr>iface_Name = ''tun0'', iface_Addrs = Inl (Error ''no such device'')\<rparr>,
      \<lparr>iface_Name = ''dummy0'', iface_Addrs = Inr []\<rparr>]"

fun sample_IP_String :: "IP \<Rightarrow> string" where
  "sample_IP_String ip =
     (if ip = [127, 0, 0, 1] then ''127.0.0.1''
      else if ip = [10, 0, 0, 5] then ''10.0.0.5''
      else ''fe80::1'')"

fun sample_Addr_String :: "Addr \<Rightarrow> string" where
  "sample_Addr_String (IPNet ip netmask) =
     sample_IP_String ip @ (if length ip = 4 then (if hd ip = 127 then ''/8'' else ''/24'') else ''/64'')"
| "sample_Addr_String (OtherAddr s) = s"

definition sample_db :: Reader where
  "sample_db ip =
     (if ip = [8, 8, 8, 8]
      then Inr \<lparr>Country_IsoCode = ''US'', Country_Names = [''en'' \<mapsto> ''United States''],
                City_Names = Map.empty, Location_Latitude = 0x4042C00000000000,
                Location_Longitude = 0xC058600000000000, Postal_Code = []\<rparr>
      else Inl (Error ''address not found''))"

definition sample_ParseIP :: "string \<Rightarrow> IP option" where
  "sample_ParseIP s =
     (if s = ''8.8.8.8'' then Some [8, 8, 8, 8]
      else if s = ''10.1.2.3'' then Some [10, 1, 2, 3]
      else None)"

definition sample_env :: env where
  "sample_env =
     \<lparr>os_Hostname = Inr ''web-1'',
      net_Interfaces = Inr sample_ifaces,
      net_InterfaceAddrs = Inr [lo_addr, eth0_v6, eth0_v4],
      Addr_String = sample_Addr_String,
      IP_String = sample_IP_String,
      net_ParseIP = sample_ParseIP,
      geoip2_Open = (\<lambda>file. Inr sample_db),
      runtime_GOOS = ''linux'',
      runtime_GOARCH = ''amd64'',
      runtime_Version = ''go1.21.0'',
      runtime_NumCPU = 4,
      MemStats_Sys = 12000000,
      humanize_Bytes = (\<lambda>n. ''12 MB''),
      json_Marshal = (\<lambda>d. Inr (''{ip:'' @ PublicIP (IPInfo d) @ ''}'')),
      json_MarshalIndent = (\<lambda>d pre ind. Inr (''{'' @ ind @ ''ip: '' @ PublicIP (IPInfo d) @ ''}''))\<rparr>"

text \<open>The same host without its geo database file.\<close>

definition nodb_env :: env where
  "nodb_env = sample_env\<lparr>geoip2_Open := (\<lambda>file. Inl (Error ''no such file or directory''))\<rparr>"

text \<open>A host where every query fails.\<close>

definition failing_env :: env where
  "failing_env =
     sample_env\<lparr>os_Hostname := Inl (Error ''hostname: not available''),
                net_Interfaces := Inl (Error ''route: netlinkrib''),
                net_InterfaceAddrs := Inl (Error ''route: netlinkrib''),
                net_ParseIP := (\<lambda>s. None),
                geoip2_Open := (\<lambda>file. Inl (Error ''no such file or directory''))\<rparr>"

definition curl_request :: HttpRequest where
  "curl_request =
     \<lparr>req_Method = ''GET'', req_URL_Path = ''/'', req_Host = ''example.org'',
      req_RemoteAddr = ''10.1.2.3:40000'',
      req_Header = [(''User-Agent'', [''curl/8.4.0'']), (''Accept'', [''*/*'']),
                    (''X-Forwarded-For'', [''8.8.8.8'']),
                    (''Cache-Control'', [''no-cache'', ''no-store''])]\<rparr>"

definition browser_request :: HttpRequest where
  "browser_request =
     \<lparr>req_Method = ''GET'', req_URL_Path = ''/'', req_Host = ''example.org'',
      req_RemoteAddr = ''10.1.2.3:40000'',
      req_Header = [(''User-Agent'', [''Mozilla/5.0'']), (''Accept'', [''text/html''])]\<rparr>"

text \<open>A client connected over IPv6, a request with an empty forwarded-for value, a POST.\<close>

definition ipv6_request :: HttpRequest where
  "ipv6_request =
     \<lparr>req_Method = ''GET'', req_URL_Path = ''/'', req_Host = ''example.org'',
      req_RemoteAddr = ''[::1]:54321'', req_Header = []\<rparr>"

definition empty_xff_request :: HttpRequest where
  "empty_xff_request =
     \<lparr>req_Method = ''GET'', req_URL_Path = ''/'', req_Host = ''example.org'',
      req_RemoteAddr = ''10.1.2.3:40000'',
      req_Header = [(''X-Forwarded-For'', ['''']), (''Accept'', [''application/json''])]\<rparr>"

definition post_foo_request :: HttpRequest where
  "post_foo_request =
     \<lparr>req_Method = ''POST'', req_URL_Path = ''/foo'', req_Host = ''example.org'',
      req_RemoteAddr = ''10.1.2.3:40000'', req_Header = []\<rparr>"





definition curl_sent :: Header where
  "curl_sent =
     [(''Host'', [''example.org'']), (''User-Agent'', [''curl/8.4.0'']), (''Accept'', [''*/*'']),
      (''X-Forwarded-For'', [''8.8.8.8'']), (''Cache-Control'', [''no-cache'', ''no-store''])]"

text \<open>Requests whose path is not in canonical form.\<close>

definition double_slash_request :: HttpRequest where
  "double_slash_request =
     \<lparr>req_Method = ''GET'', req_URL_Path = ''//foo'', req_Host = ''example.org'',
      req_RemoteAddr = ''10.1.2.3:40000'', req_Header = []\<rparr>"

definition dot_dot_request :: HttpRequest where
  "dot_dot_request =
     \<lparr>req_Method = ''GET'', req_URL_Path = ''/a/../b'', req_Host = ''example.org'',
      req_RemoteAddr = ''10.1.2.3:40000'', req_Header = []\<rparr>"

section \<open>Properties\<close>

subsection \<open>The string functions\<close>


lemma split_from_not_Nil: "split_from sep cur s \<noteq> []"
  by (induction sep cur s rule: split_from.induct) auto

lemma index0_Split: "\<exists>x. index0 (strings_Split s sep) = Some x"
  using split_from_not_Nil [of sep "[]" s]
  by (cases "split_from sep [] s") (auto simp: index0_def strings_Split_def)

lemma split_from_no_sep: "c \<notin> set x \<Longrightarrow> split_from [c] cur x = [cur @ x]"
  by (induction x arbitrary: cur) auto

lemma split_from_piece:
  "c \<notin> set x \<Longrightarrow> split_from [c] cur (x @ c # s) = (cur @ x) # split_from [c] [] s"
  by (induction x arbitrary: cur) auto

text \<open>
  Joining and splitting again gives the values back in their order, when no value
  contains the separator.
\<close>

lemma split_join:
  "vs \<noteq> [] \<Longrightarrow> \<forall>v\<in>set vs. c \<notin> set v \<Longrightarrow> strings_Split (strings_Join vs [c]) [c] = vs"
  unfolding strings_Split_def
  by (induction vs "[c]" rule: strings_Join.induct) (auto simp: split_from_no_sep split_from_piece)







subsection \<open>The loops\<close>

lemma addrs_loop_eq:
  "addrs_loop e name addrs m = (if addrs = [] then m else m(name \<mapsto> Addr_String e (last addrs)))"
  by (induction addrs arbitrary: m) auto

lemma ifaces_loop_eq:
  "ifaces_loop e ifaces m name =
     (if enumerated ifaces name = [] then m name
      else Some (Addr_String e (last (enumerated ifaces name))))"
proof (induction ifaces arbitrary: m)
  case Nil
  show ?case by (simp add: enumerated_def)
next
  case (Cons i ifaces)
  show ?case
  proof (cases "iface_Addrs i")
    case (Inl err)
    then show ?thesis using Cons [of m] by (simp add: enumerated_def)
  next
    case (Inr addrs)
    then show ?thesis using Cons [of "addrs_loop e (iface_Name i) addrs m"]
      by (auto simp: enumerated_def addrs_loop_eq)
  qed
qed

text \<open>
  When every interface has a name of its own, the addresses enumerated under the name of an
  interface are the addresses of that interface.
\<close>

lemma enumerated_unique_name:
  "distinct (map iface_Name ifaces) \<Longrightarrow> i \<in> set ifaces \<Longrightarrow>
   enumerated ifaces (iface_Name i) =
     (case iface_Addrs i of Inl err \<Rightarrow> [] | Inr addrs \<Rightarrow> addrs)"
proof (induction ifaces)
  case Nil
  then show ?case by simp
next
  case (Cons j ifaces)
  show ?case
  proof (cases "i = j")
    case True
    from Cons.prems True have "iface_Name i \<notin> iface_Name ` set ifaces"
      by simp
    then have "filter (\<lambda>k. iface_Name k = iface_Name i) ifaces = []"
      unfolding filter_empty_conv by (metis imageI)
    with True show ?thesis by (simp add: enumerated_def)
  next
    case False
    with Cons.prems have "i \<in> set ifaces" and "iface_Name j \<noteq> iface_Name i"
      and "distinct (map iface_Name ifaces)"
      by auto
    with Cons.IH show ?thesis by (simp add: enumerated_def)
  qed
qed

lemma headers_loop_distinct:
  "distinct (map fst h) \<Longrightarrow>
   headers_loop h m k =
     (case map_of h k of None \<Rightarrow> m k | Some v \<Rightarrow> Some (strings_Join v '';''))"
proof (induction h arbitrary: m)
  case Nil
  show ?case by simp
next
  case (Cons kv h)
  obtain k' v' where kv: "kv = (k', v')" by (cases kv)
  from Cons.prems kv have fresh: "map_of h k' = None" and d: "distinct (map fst h)"
    by (auto simp: map_of_eq_None_iff)
  have "headers_loop (kv # h) m k = headers_loop h (m(k' \<mapsto> strings_Join v' '';'')) k"
    by (simp add: kv)
  also have "\<dots> = (case map_of h k of None \<Rightarrow> (m(k' \<mapsto> strings_Join v' '';'')) k
                                 | Some v \<Rightarrow> Some (strings_Join v '';''))"
    by (rule Cons.IH [OF d])
  also have "\<dots> = (case map_of (kv # h) k of None \<Rightarrow> m k
                                 | Some v \<Rightarrow> Some (strings_Join v '';''))"
    using fresh by (auto simp: kv split: option.splits)
  finally show ?case .
qed

lemma server_ip_loop_find:
  "server_ip_loop e addrs cur =
     (case find nonloopback_IPv4 addrs of
        None \<Rightarrow> cur
      | Some a \<Rightarrow> IP_String e (Addr_IP a))"
proof (induction addrs)
  case Nil
  show ?case by simp
next
  case (Cons a addrs)
  then show ?case by (cases a) simp_all
qed

subsection \<open>The handler never panics\<close>

lemma callerIP_total: "\<exists>ip. callerIP r = Some ip"
  using index0_Split [of "req_RemoteAddr r" "'':''"] by (auto simp: callerIP_def Let_def)

lemma collectDetails_total: "\<exists>d. collectDetails e r = Some d"
  using callerIP_total [of r] by (auto simp: collectDetails_def Let_def)

lemma collectDetails_fields:
  assumes "collectDetails e r = Some d"
  shows "Headers (Request d) = headers_loop (req_Header r) Map.empty"
    and "ServerIP (Server d) = server_ip_loop e (interfaceAddrs e) []"
    and "Interfaces (Server d) = getNetworkInterfaces e"
    and "\<exists>ip. callerIP r = Some ip \<and> IPInfo d = IPInfo (getPublicIPInfo e ip)"
  using assms by (auto simp: collectDetails_def Let_def split: option.splits)





subsection \<open>The caller address\<close>

lemma callerIP_forwarded:
  "Header_Get (req_Header r) ''X-Forwarded-For'' \<noteq> [] \<Longrightarrow>
   callerIP r = Some (Header_Get (req_Header r) ''X-Forwarded-For'')"
  by (simp add: callerIP_def)

text \<open>
  Where the host part of the remote address has no colon (an IPv4 address or a name), the
  split at the first colon does strip the port.
\<close>

lemma callerIP_host_port:
  assumes "Header_Get (req_Header r) ''X-Forwarded-For'' = []"
    and "req_RemoteAddr r = host @ '':'' @ port" and "CHR '':'' \<notin> set host"
  shows "callerIP r = Some host"
  using assms split_from_piece [of "CHR '':''" host "[]" port]
  by (simp add: callerIP_def strings_Split_def index0_def)

lemma Header_Get_without: "Header_Get (req_Header (without_header key r)) key = []"
proof -
  have "map_of (filter (\<lambda>kv. fst kv \<noteq> key) h) key = None" for h :: Header
    by (induction h) auto
  then show ?thesis by (simp add: Header_Get_def without_header_def)
qed

subsection \<open>The handler's report is the best-effort report\<close>







lemma headers_loop_absent: "k \<notin> fst ` set h \<Longrightarrow> headers_loop h m k = m k"
  by (induction h arbitrary: m) auto





subsection \<open>The multiplexer\<close>

lemma main_routes_select:
  "mux_handler main_routes path = (if prefix ''/'' path then Serve ConnectionHandler else NotFound)"
  by (simp add: mux_handler_def main_routes_def pathMatch_def)

lemma main_routes_no_slash_redirect: "\<not> redirectToPathSlash main_routes path"
  by (auto simp: redirectToPathSlash_def main_routes_def)

lemma cleanPath_rooted: "prefix ''/'' (cleanPath p)"
  by (simp add: cleanPath_def path_Clean_def Let_def)

section \<open>The claims\<close>

text \<open>
  C8. Whatever the input string and whatever the geo database answers, the organization
  field of the record that \<^verbatim>\<open>getPublicIPInfo\<close> returns is the empty string.
\<close>

theorem organization_never_populated:
  "Organization (IPInfo (getPublicIPInfo e ip)) = []"
  by (simp add: getPublicIPInfo_def zero_ConnectionDetails_def zero_GeoInfo_def Let_def
      split: sum.splits option.splits)

text \<open>
  C4. When the geo database cannot be opened, or the input string does not parse as an IP
  address, or the lookup returns an error, \<^verbatim>\<open>getPublicIPInfo\<close> returns the zero record with
  only \<^verbatim>\<open>public_ip\<close> set, to the raw input string. The function returns a plain record: it
  has no error result.
\<close>

theorem getPublicIPInfo_failure_default:
  assumes "(\<exists>err. geoip2_Open e ''GeoLite2-City.mmdb'' = Inl err) \<or>
           net_ParseIP e ip = None \<or>
           (\<exists>db parsedIP err. geoip2_Open e ''GeoLite2-City.mmdb'' = Inr db \<and>
              net_ParseIP e ip = Some parsedIP \<and> db parsedIP = Inl err)"
  shows "getPublicIPInfo e ip = zero_ConnectionDetails\<lparr>IPInfo := zero_GeoInfo\<lparr>PublicIP := ip\<rparr>\<rparr>"
  using assms
  by (auto simp: getPublicIPInfo_def Let_def split: sum.splits option.splits)

theorem getPublicIPInfo_failure_default_witness:
  "getPublicIPInfo nodb_env ''8.8.8.8'' =
     zero_ConnectionDetails\<lparr>IPInfo := zero_GeoInfo\<lparr>PublicIP := ''8.8.8.8''\<rparr>\<rparr> \<and>
   getPublicIPInfo sample_env ''not-an-ip'' =
     zero_ConnectionDetails\<lparr>IPInfo := zero_GeoInfo\<lparr>PublicIP := ''not-an-ip''\<rparr>\<rparr> \<and>
   getPublicIPInfo sample_env ''10.1.2.3'' =
     zero_ConnectionDetails\<lparr>IPInfo := zero_GeoInfo\<lparr>PublicIP := ''10.1.2.3''\<rparr>\<rparr>"
proof -
  have no_db: "\<exists>err. geoip2_Open nodb_env ''GeoLite2-City.mmdb'' = Inl err"
    by (simp add: nodb_env_def sample_env_def)
  have no_parse: "net_ParseIP sample_env ''not-an-ip'' = None"
    by (simp add: sample_env_def sample_ParseIP_def)
  have no_record: "\<exists>db parsedIP err. geoip2_Open sample_env ''GeoLite2-City.mmdb'' = Inr db \<and>
      net_ParseIP sample_env ''10.1.2.3'' = Some parsedIP \<and> db parsedIP = Inl err"
    by (simp add: sample_env_def sample_ParseIP_def sample_db_def)
  show ?thesis
    using getPublicIPInfo_failure_default [of nodb_env "''8.8.8.8''"]
      getPublicIPInfo_failure_default [of sample_env "''not-an-ip''"]
      getPublicIPInfo_failure_default [of sample_env "''10.1.2.3''"]
      no_db no_parse no_record
    by blast
qed







text \<open>
  C3. The string handed to the geo lookup is the value of \<^verbatim>\<open>X-Forwarded-For\<close> when that is
  not empty (\<open>callerIP_forwarded\<close>), and otherwise the remote address cut at its first
  colon. For a remote address whose host part has no colon that is the address without
  its port (\<open>callerIP_host_port\<close>). For a client connected over IPv6 it is not: the remote
  address \<^verbatim>\<open>[::1]:54321\<close> gives \<^verbatim>\<open>[\<close>, where stripping the port gives \<^verbatim>\<open>[::1]\<close>.
\<close>

theorem callerIP_ipv6_remote_addr:
  "Header_Get (req_Header ipv6_request) ''X-Forwarded-For'' = [] \<and>
   callerIP ipv6_request = Some ''['' \<and>
   spec_strip_port (req_RemoteAddr ipv6_request) = ''[::1]''"
  by (simp add: callerIP_def ipv6_request_def Header_Get_def strings_Split_def index0_def
      spec_strip_port_def)

text \<open>
  C5, as amended. The header map of the report has an entry for every header in the
  header map of the request as the handler receives it, and no other; the entry of a
  header is its values joined with \<^verbatim>\<open>;\<close> in the order received, so that splitting the entry
  at \<^verbatim>\<open>;\<close> gives the values back when none of them contains the separator. The Host header
  a caller sends is not in the map the handler receives: it has no entry in the report,
  and its value is the host of the report.
\<close>

theorem headers_flattened_without_Host:
  assumes "distinct (map fst (req_Header r))"
  shows "\<exists>d. collectDetails e r = Some d \<and>
     dom (Headers (Request d)) = fst ` set (req_Header r) \<and>
     (\<forall>(k, vs) \<in> set (req_Header r).
        Headers (Request d) k = Some (strings_Join vs '';'') \<and>
        (vs \<noteq> [] \<and> (\<forall>v\<in>set vs. CHR '';'' \<notin> set v) \<longrightarrow>
           strings_Split (strings_Join vs '';'') '';'' = vs)) \<and>
     (Host_promoted sent r \<longrightarrow>
        Headers (Request d) ''Host'' = None \<and>
        Host (Request d) = Header_Get sent ''Host'')"
proof -
  obtain d where d: "collectDetails e r = Some d"
    using collectDetails_total by blast
  have h: "Headers (Request d) k =
      (case map_of (req_Header r) k of None \<Rightarrow> None | Some v \<Rightarrow> Some (strings_Join v '';''))" for k
    using collectDetails_fields(1) [OF d] headers_loop_distinct [OF assms, of Map.empty k]
    by simp
  have "dom (Headers (Request d)) = dom (map_of (req_Header r))"
    by (auto simp: h dom_def split: option.splits)
  then have 1: "dom (Headers (Request d)) = fst ` set (req_Header r)"
    by (simp add: dom_map_of_conv_image_fst)
  have 2: "Headers (Request d) k = Some (strings_Join vs '';'')"
    if "(k, vs) \<in> set (req_Header r)" for k vs
    using that assms by (simp add: h)
  have 3: "strings_Split (strings_Join vs '';'') '';'' = vs"
    if "vs \<noteq> []" "\<forall>v\<in>set vs. CHR '';'' \<notin> set v" for vs
    using split_join [OF that] by simp
  have 4: "Headers (Request d) ''Host'' = None" if "Host_promoted sent r"
    using that 1 by (auto simp: Host_promoted_def dom_def)
  have 5: "Host (Request d) = Header_Get sent ''Host''" if "Host_promoted sent r"
    using that d
    by (auto simp: Host_promoted_def collectDetails_def Let_def split: option.splits)
  from d 1 2 3 4 5 show ?thesis by auto
qed

theorem headers_flattened_without_Host_witness:
  "distinct (map fst (req_Header curl_request)) \<and> Host_promoted curl_sent curl_request \<and>
   (\<exists>d. collectDetails sample_env curl_request = Some d \<and>
        Headers (Request d) ''Cache-Control'' = Some ''no-cache;no-store'' \<and>
        strings_Split ''no-cache;no-store'' '';'' = [''no-cache'', ''no-store''] \<and>
        Headers (Request d) ''Host'' = None \<and> Host (Request d) = ''example.org'')"
proof -
  have dist: "distinct (map fst (req_Header curl_request))"
    by (simp add: curl_request_def)
  have pr: "Host_promoted curl_sent curl_request"
    by (simp add: Host_promoted_def curl_sent_def curl_request_def Header_Get_def)
  have mem: "(''Cache-Control'', [''no-cache'', ''no-store'']) \<in> set (req_Header curl_request)"
    by (simp add: curl_request_def)
  have host: "Header_Get curl_sent ''Host'' = ''example.org''"
    by (simp add: curl_sent_def Header_Get_def)
  from headers_flattened_without_Host [OF dist, of sample_env curl_sent] mem pr
  have "\<exists>d. collectDetails sample_env curl_request = Some d \<and>
        Headers (Request d) ''Cache-Control'' = Some ''no-cache;no-store'' \<and>
        strings_Split ''no-cache;no-store'' '';'' = [''no-cache'', ''no-store''] \<and>
        Headers (Request d) ''Host'' = None \<and> Host (Request d) = ''example.org''"
    unfolding host by fastforce
  with dist pr show ?thesis by blast
qed

text \<open>
  C5, as stated, fails for the Host header: the caller sends it, the handler receives the
  other headers in the header map and the host in the host field, and the header map of
  the report has no entry for it.
\<close>

theorem sent_Host_header_counterexample:
  "(''Host'', [''example.org'']) \<in> set curl_sent \<and>
   req_Header curl_request = filter (\<lambda>kv. fst kv \<noteq> ''Host'') curl_sent \<and>
   req_Host curl_request = Header_Get curl_sent ''Host'' \<and>
   map_option (\<lambda>d. Headers (Request d) ''Host'') (collectDetails sample_env curl_request) =
     Some None"
proof -
  have sent: "(''Host'', [''example.org'']) \<in> set curl_sent"
    "req_Header curl_request = filter (\<lambda>kv. fst kv \<noteq> ''Host'') curl_sent"
    "req_Host curl_request = Header_Get curl_sent ''Host''"
    by (simp_all add: curl_sent_def curl_request_def Header_Get_def)
  obtain d where d: "collectDetails sample_env curl_request = Some d"
    using collectDetails_total by blast
  have "''Host'' \<notin> fst ` set (req_Header curl_request)"
    by (simp add: curl_request_def)
  then have "Headers (Request d) ''Host'' = None"
    using collectDetails_fields(1) [OF d] by (simp add: headers_loop_absent)
  with d sent show ?thesis by simp
qed

text \<open>
  C7. The server address of the report is the string of the first address, in the order of
  \<^verbatim>\<open>net.InterfaceAddrs()\<close>, that is a non-loopback IPv4 network address; it is empty when
  there is none and when the enumeration fails.
\<close>

theorem server_ip_first_nonloopback_IPv4:
  "\<exists>d. collectDetails e r = Some d \<and>
     ServerIP (Server d) =
       (case net_InterfaceAddrs e of
          Inl err \<Rightarrow> []
        | Inr addrs \<Rightarrow>
            (case find nonloopback_IPv4 addrs of
               None \<Rightarrow> []
             | Some a \<Rightarrow> IP_String e (Addr_IP a)))"
proof -
  obtain d where d: "collectDetails e r = Some d"
    using collectDetails_total by blast
  have "ServerIP (Server d) = server_ip_loop e (interfaceAddrs e) []"
    by (rule collectDetails_fields(2) [OF d])
  then show ?thesis
    using d by (simp add: server_ip_loop_find interfaceAddrs_def split: sum.splits)
qed

theorem server_ip_first_nonloopback_IPv4_witness:
  "net_InterfaceAddrs sample_env = Inr [lo_addr, eth0_v6, eth0_v4] \<and>
   \<not> nonloopback_IPv4 lo_addr \<and> \<not> nonloopback_IPv4 eth0_v6 \<and> nonloopback_IPv4 eth0_v4 \<and>
   (\<exists>d. collectDetails sample_env browser_request = Some d \<and> ServerIP (Server d) = ''10.0.0.5'') \<and>
   (\<exists>d. collectDetails failing_env browser_request = Some d \<and> ServerIP (Server d) = [])"
proof -
  have lo: "\<not> nonloopback_IPv4 lo_addr"
    by (simp add: lo_addr_def IsLoopback_def To4_def)
  have v6: "\<not> nonloopback_IPv4 eth0_v6"
    by (simp add: eth0_v6_def To4_def)
  have v4: "nonloopback_IPv4 eth0_v4"
    by (simp add: eth0_v4_def IsLoopback_def To4_def)
  have addrs: "net_InterfaceAddrs sample_env = Inr [lo_addr, eth0_v6, eth0_v4]"
    by (simp add: sample_env_def)
  have str: "IP_String sample_env (Addr_IP eth0_v4) = ''10.0.0.5''"
    by (simp add: sample_env_def eth0_v4_def)
  have fail: "net_InterfaceAddrs failing_env = Inl (Error ''route: netlinkrib'')"
    by (simp add: failing_env_def)
  have 1: "\<exists>d. collectDetails sample_env browser_request = Some d \<and> ServerIP (Server d) = ''10.0.0.5''"
    using server_ip_first_nonloopback_IPv4 [of sample_env browser_request] lo v6 v4 str
    by (simp add: addrs)
  have 2: "\<exists>d. collectDetails failing_env browser_request = Some d \<and> ServerIP (Server d) = []"
    using server_ip_first_nonloopback_IPv4 [of failing_env browser_request]
    by (simp add: fail)
  from addrs lo v6 v4 1 2 show ?thesis by blast
qed

text \<open>
  C6, as amended. The interface map has an entry for a name exactly when at least one
  address was enumerated under that name, and the entry is the string of the last such
  address. An interface whose address enumeration fails contributes no address, and so
  does an interface without addresses: neither gets an entry. When the enumeration of the
  interfaces fails the map is empty.
\<close>

theorem getNetworkInterfaces_last_address:
  "getNetworkInterfaces e name =
     (case net_Interfaces e of
        Inl err \<Rightarrow> None
      | Inr ifaces \<Rightarrow>
          if enumerated ifaces name = [] then None
          else Some (Addr_String e (last (enumerated ifaces name))))"
  by (simp add: getNetworkInterfaces_def ifaces_loop_eq split: sum.splits)

theorem getNetworkInterfaces_last_address_witness:
  "enumerated sample_ifaces ''eth0'' = [eth0_v4, eth0_v6] \<and>
   getNetworkInterfaces sample_env ''eth0'' = Some ''fe80::1/64'' \<and>
   getNetworkInterfaces sample_env ''lo'' = Some ''127.0.0.1/8'' \<and>
   getNetworkInterfaces sample_env ''tun0'' = None \<and>
   getNetworkInterfaces failing_env ''eth0'' = None"
proof -
  have ifs: "net_Interfaces sample_env = Inr sample_ifaces"
    by (simp add: sample_env_def)
  have fail: "net_Interfaces failing_env = Inl (Error ''route: netlinkrib'')"
    by (simp add: failing_env_def)
  have en: "enumerated sample_ifaces ''eth0'' = [eth0_v4, eth0_v6]"
    "enumerated sample_ifaces ''lo'' = [lo_addr]"
    "enumerated sample_ifaces ''tun0'' = []"
    by (simp_all add: enumerated_def sample_ifaces_def)
  have str: "Addr_String sample_env eth0_v6 = ''fe80::1/64''"
    "Addr_String sample_env lo_addr = ''127.0.0.1/8''"
    by (simp_all add: sample_env_def eth0_v6_def lo_addr_def)
  show ?thesis
    using getNetworkInterfaces_last_address [of sample_env "''eth0''"]
      getNetworkInterfaces_last_address [of sample_env "''lo''"]
      getNetworkInterfaces_last_address [of sample_env "''tun0''"]
      getNetworkInterfaces_last_address [of failing_env "''eth0''"]
    by (simp add: ifs fail en str)
qed

text \<open>
  C6, as stated, fails for an interface without addresses: its enumeration succeeds, and
  the map has no entry for its name.
\<close>

theorem getNetworkInterfaces_no_address_counterexample:
  "net_Interfaces sample_env = Inr sample_ifaces \<and>
   \<lparr>iface_Name = ''dummy0'', iface_Addrs = Inr []\<rparr> \<in> set sample_ifaces \<and>
   getNetworkInterfaces sample_env ''dummy0'' = None"
  by (simp add: sample_env_def sample_ifaces_def getNetworkInterfaces_def)

text \<open>
  C9, as amended. \<^verbatim>\<open>main\<close> registers one pattern, \<^verbatim>\<open>/\<close>, without a method. The pattern names
  the whole tree: \<^verbatim>\<open>connectionHandler\<close> is selected for a request of any method whose path
  is in canonical form, that is, a path that the multiplexer's \<^verbatim>\<open>cleanPath\<close> leaves as it
  is (it begins with a slash and has no empty element, no \<^verbatim>\<open>.\<close> and no \<^verbatim>\<open>..\<close>); a request
  with any other path is answered with a redirect to the canonical path. For the method
  CONNECT the path is taken as it is, and the handler is selected when it begins with a
  slash.
\<close>

theorem route_selects_canonical_paths:
  "map fst main_routes = [''/''] \<and>
   ServeMux_Handler main_routes r =
     (if req_Method r = ''CONNECT''
      then (if prefix ''/'' (req_URL_Path r) then Serve ConnectionHandler else NotFound)
      else if cleanPath (req_URL_Path r) = req_URL_Path r then Serve ConnectionHandler
      else Redirect (cleanPath (req_URL_Path r))) \<and>
   (handled_by_connectionHandler r \<longleftrightarrow>
      (if req_Method r = ''CONNECT'' then prefix ''/'' (req_URL_Path r)
       else cleanPath (req_URL_Path r) = req_URL_Path r))"
proof -
  have routes: "map fst main_routes = [''/'']"
    by (simp add: main_routes_def)
  have clean: "prefix ''/'' (req_URL_Path r)" if "cleanPath (req_URL_Path r) = req_URL_Path r"
    using cleanPath_rooted [of "req_URL_Path r"] that by simp
  have sel: "ServeMux_Handler main_routes r =
     (if req_Method r = ''CONNECT''
      then (if prefix ''/'' (req_URL_Path r) then Serve ConnectionHandler else NotFound)
      else if cleanPath (req_URL_Path r) = req_URL_Path r then Serve ConnectionHandler
      else Redirect (cleanPath (req_URL_Path r)))"
    using clean
    by (auto simp: ServeMux_Handler_def main_routes_no_slash_redirect main_routes_select Let_def)
  from routes sel show ?thesis
    by (simp add: handled_by_connectionHandler_def)
qed

theorem route_selects_canonical_paths_witness:
  "req_Method post_foo_request = ''POST'' \<and>
   cleanPath (req_URL_Path post_foo_request) = req_URL_Path post_foo_request \<and>
   handled_by_connectionHandler post_foo_request \<and>
   cleanPath (req_URL_Path double_slash_request) = ''/foo'' \<and>
   ServeMux_Handler main_routes double_slash_request = Redirect ''/foo'' \<and>
   \<not> handled_by_connectionHandler double_slash_request \<and>
   ServeMux_Handler main_routes dot_dot_request = Redirect ''/b'' \<and>
   \<not> handled_by_connectionHandler dot_dot_request"
proof -
  have c: "cleanPath ''/foo'' = ''/foo''" "cleanPath ''//foo'' = ''/foo''"
    "cleanPath ''/a/../b'' = ''/b''"
    by (simp_all add: cleanPath_def path_Clean_def strings_Split_def clean_step_def)
  have r: "req_Method post_foo_request = ''POST''" "req_URL_Path post_foo_request = ''/foo''"
    "req_Method double_slash_request = ''GET''" "req_URL_Path double_slash_request = ''//foo''"
    "req_Method dot_dot_request = ''GET''" "req_URL_Path dot_dot_request = ''/a/../b''"
    by (simp_all add: post_foo_request_def double_slash_request_def dot_dot_request_def)
  show ?thesis
    using route_selects_canonical_paths [of post_foo_request]
      route_selects_canonical_paths [of double_slash_request]
      route_selects_canonical_paths [of dot_dot_request]
    unfolding r c by simp
qed

text \<open>
  C9, as stated, fails: a POST to \<^verbatim>\<open>/foo\<close> is neither a GET nor a request to the root path,
  and it is handed to \<^verbatim>\<open>connectionHandler\<close>.
\<close>

theorem route_not_only_GET_root_counterexample:
  "handled_by_connectionHandler post_foo_request \<and> \<not> spec_route post_foo_request"
  by (simp add: handled_by_connectionHandler_def ServeMux_Handler_def mux_handler_def
      redirectToPathSlash_def main_routes_def pathMatch_def post_foo_request_def spec_route_def
      cleanPath_def path_Clean_def strings_Split_def clean_step_def)

text \<open>
  C10. A request that carries \<^verbatim>\<open>X-Forwarded-For\<close> with an empty value is treated as one
  without the header: the caller address is the first piece of the remote address, and the
  geo record of the report is the one the request without the header gets.
\<close>

theorem empty_forwarded_for_as_absent:
  assumes "''X-Forwarded-For'' \<in> fst ` set (req_Header r)"
    and "Header_Get (req_Header r) ''X-Forwarded-For'' = []"
  shows "callerIP r = index0 (strings_Split (req_RemoteAddr r) '':'') \<and>
     callerIP r = callerIP (without_header ''X-Forwarded-For'' r) \<and>
     (\<exists>d d'. collectDetails e r = Some d \<and>
        collectDetails e (without_header ''X-Forwarded-For'' r) = Some d' \<and>
        IPInfo d = IPInfo d')"
proof -
  let ?r' = "without_header ''X-Forwarded-For'' r"
  have 1: "callerIP r = index0 (strings_Split (req_RemoteAddr r) '':'')"
    using assms(2) by (simp add: callerIP_def)
  have "callerIP ?r' = index0 (strings_Split (req_RemoteAddr ?r') '':'')"
    using Header_Get_without [of "''X-Forwarded-For''" r] by (simp add: callerIP_def)
  then have 2: "callerIP r = callerIP ?r'"
    using 1 by (simp add: without_header_def)
  obtain d where d: "collectDetails e r = Some d"
    using collectDetails_total by blast
  obtain d' where d': "collectDetails e ?r' = Some d'"
    using collectDetails_total by blast
  have "IPInfo d = IPInfo d'"
    using collectDetails_fields(4) [OF d] collectDetails_fields(4) [OF d'] 2 by auto
  with 1 2 d d' show ?thesis by blast
qed

theorem empty_forwarded_for_as_absent_witness:
  "''X-Forwarded-For'' \<in> fst ` set (req_Header empty_xff_request) \<and>
   Header_Get (req_Header empty_xff_request) ''X-Forwarded-For'' = [] \<and>
   callerIP empty_xff_request = Some ''10.1.2.3'' \<and>
   callerIP (without_header ''X-Forwarded-For'' empty_xff_request) = Some ''10.1.2.3''"
proof -
  have p: "''X-Forwarded-For'' \<in> fst ` set (req_Header empty_xff_request)"
    by (simp add: empty_xff_request_def)
  have g: "Header_Get (req_Header empty_xff_request) ''X-Forwarded-For'' = []"
    by (simp add: empty_xff_request_def Header_Get_def)
  have s: "index0 (strings_Split (req_RemoteAddr empty_xff_request) '':'') = Some ''10.1.2.3''"
    by (simp add: empty_xff_request_def strings_Split_def index0_def)
  from empty_forwarded_for_as_absent [OF p g, of sample_env] s
  have "callerIP empty_xff_request = Some ''10.1.2.3''"
    and "callerIP (without_header ''X-Forwarded-For'' empty_xff_request) = Some ''10.1.2.3''"
    by metis+
  with p g show ?thesis by blast
qed

end
